theory Spec2Isabelle
  imports Complex_Main "HOL-Library.Multiset"
begin

section \<open>Python values as the calculators see them\<close>

text \<open>
  The calculators of \<^verbatim>\<open>app/clinical_modules/calculators.py\<close> are plain Python functions:
  the annotations on their parameters are not enforced, so an argument is any Python value and
  an operation on a value of the wrong kind raises \<^verbatim>\<open>TypeError\<close> at the moment it runs.
  The model keeps that: an argument is a \<open>pyval\<close>, and every comparison and every
  arithmetic step returns either an error or its result.

  A Python \<^verbatim>\<open>int\<close> is unbounded (\<open>int\<close>). A finite \<^verbatim>\<open>float\<close> is a rational number and is
  kept as the \<open>rat\<close> it denotes; Python compares an int with a float, and a float with a
  float, by exact value, so the comparisons of the model are the comparisons of the code.
  The decimal literals of the source that are not binary fractions (29.9, 31.9, 33.9) denote
  the double just below the decimal, so no double lies between the literal and the decimal
  and comparing against the decimal decides the same inputs. Sums and differences of floats
  are exact in the model. The Wells score is a sum of halves, which is exact in Python as
  well; the only other float arithmetic is \<^verbatim>\<open>15 - glasgow_coma_scale\<close> when APACHE II is
  given a float for the Glasgow score, which Python rounds to a double. NaN and the
  infinities are not represented.

  A Python \<^verbatim>\<open>str\<close> is kept as the bytes of its UTF-8 encoding: the accented letters of the
  Spanish messages are two bytes each.
\<close>

datatype pyval = PyNone | PyBool bool | PyInt int | PyFloat rat | PyStr string

datatype pyerr = ValueError string | TypeError

type_synonym 'a raises = "pyerr + 'a"

definition bnd :: "'a raises \<Rightarrow> ('a \<Rightarrow> 'b raises) \<Rightarrow> 'b raises" where
  "bnd m f = (case m of Inl e \<Rightarrow> Inl e | Inr x \<Rightarrow> f x)"

text \<open>Truth value testing, as \<^verbatim>\<open>if x:\<close> does it.\<close>

fun truthy :: "pyval \<Rightarrow> bool" where
  "truthy PyNone = False"
| "truthy (PyBool b) = b"
| "truthy (PyInt i) = (i \<noteq> 0)"
| "truthy (PyFloat q) = (q \<noteq> 0)"
| "truthy (PyStr s) = (s \<noteq> [])"

text \<open>The numeric value of a number; \<^verbatim>\<open>bool\<close> is a subclass of \<^verbatim>\<open>int\<close>.\<close>

fun num_of :: "pyval \<Rightarrow> rat option" where
  "num_of (PyBool b) = Some (if b then 1 else 0)"
| "num_of (PyInt i) = Some (of_int i)"
| "num_of (PyFloat q) = Some q"
| "num_of PyNone = None"
| "num_of (PyStr s) = None"

text \<open>Strings compare lexicographically by code point, which is the byte order of UTF-8.\<close>

fun str_lt :: "string \<Rightarrow> string \<Rightarrow> bool" where
  "str_lt [] [] = False"
| "str_lt [] (d # ds) = True"
| "str_lt (c # cs) [] = False"
| "str_lt (c # cs) (d # ds) =
     ((of_char c :: nat) < of_char d \<or> (c = d \<and> str_lt cs ds))"

fun py_lt :: "pyval \<Rightarrow> pyval \<Rightarrow> bool raises" where
  "py_lt (PyStr s) (PyStr t) = Inr (str_lt s t)"
| "py_lt a b =
     (case (num_of a, num_of b) of
        (Some x, Some y) \<Rightarrow> Inr (x < y)
      | _ \<Rightarrow> Inl TypeError)"

fun py_le :: "pyval \<Rightarrow> pyval \<Rightarrow> bool raises" where
  "py_le (PyStr s) (PyStr t) = Inr (\<not> str_lt t s)"
| "py_le a b =
     (case (num_of a, num_of b) of
        (Some x, Some y) \<Rightarrow> Inr (x \<le> y)
      | _ \<Rightarrow> Inl TypeError)"

definition py_gt :: "pyval \<Rightarrow> pyval \<Rightarrow> bool raises" where
  "py_gt a b = py_lt b a"

definition py_ge :: "pyval \<Rightarrow> pyval \<Rightarrow> bool raises" where
  "py_ge a b = py_le b a"

text \<open>\<^verbatim>\<open>a or b\<close> on two comparisons: the right one runs only when the left one is false.\<close>

definition py_or :: "bool raises \<Rightarrow> bool raises \<Rightarrow> bool raises" where
  "py_or a b = bnd a (\<lambda>x. if x then Inr True else b)"

text \<open>
  Addition and subtraction of numbers: the result is an int when both operands are ints
  (or bools), a float otherwise. The calculators never add strings.
\<close>

fun is_intlike :: "pyval \<Rightarrow> int option" where
  "is_intlike (PyBool b) = Some (if b then 1 else 0)"
| "is_intlike (PyInt i) = Some i"
| "is_intlike v = None"

definition py_arith :: "(int \<Rightarrow> int \<Rightarrow> int) \<Rightarrow> (rat \<Rightarrow> rat \<Rightarrow> rat) \<Rightarrow> pyval \<Rightarrow> pyval \<Rightarrow> pyval raises" where
  "py_arith fi fq a b =
     (case (is_intlike a, is_intlike b) of
        (Some i, Some j) \<Rightarrow> Inr (PyInt (fi i j))
      | _ \<Rightarrow> (case (num_of a, num_of b) of
                (Some x, Some y) \<Rightarrow> Inr (PyFloat (fq x y))
              | _ \<Rightarrow> Inl TypeError))"

definition py_add :: "pyval \<Rightarrow> pyval \<Rightarrow> pyval raises" where
  "py_add = py_arith (+) (+)"

definition py_sub :: "pyval \<Rightarrow> pyval \<Rightarrow> pyval raises" where
  "py_sub = py_arith (-) (-)"

subsection \<open>Formatting\<close>

definition digit_char :: "nat \<Rightarrow> char" where
  "digit_char d = ''0123456789'' ! (d mod 10)"

fun str_nat :: "nat \<Rightarrow> string" where
  "str_nat n = (if n < 10 then [digit_char n] else str_nat (n div 10) @ [digit_char (n mod 10)])"

declare str_nat.simps [simp del]

definition str_int :: "int \<Rightarrow> string" where
  "str_int i = (if i < 0 then CHR ''-'' # str_nat (nat (- i)) else str_nat (nat i))"

text \<open>
  The digits after the decimal point of a fraction \<open>n / d\<close> below one, at most \<open>fuel\<close> of
  them, stopping when the expansion ends.
\<close>

fun frac_digits :: "nat \<Rightarrow> nat \<Rightarrow> nat \<Rightarrow> string" where
  "frac_digits 0 n d = []"
| "frac_digits (Suc fuel) n d =
     (if n = 0 then []
      else digit_char ((10 * n) div d) # frac_digits fuel ((10 * n) mod d) d)"

text \<open>
  \<^verbatim>\<open>str\<close> of a float. Python prints the shortest decimal that reads back as the same
  double, with at least one digit after the point; for a float that is a short decimal
  (a Wells score is a whole number of halves) that is its decimal expansion, which is what
  this function writes, cut at 17 digits.
\<close>

definition str_float :: "rat \<Rightarrow> string" where
  "str_float q =
     (let a = \<bar>q\<bar>;
          w = nat \<lfloor>a\<rfloor>;
          (n, d) = quotient_of (a - of_nat w);
          ds = frac_digits 17 (nat n) (nat d)
      in (if q < 0 then ''-'' else '''') @ str_nat w @ ''.'' @ (if ds = [] then ''0'' else ds))"

text \<open>
  The format \<^verbatim>\<open>{x:.1f}\<close>: one digit after the point, the value rounded to the nearest
  tenth, an exact tie going to the even neighbour.
\<close>

definition round_half_even :: "rat \<Rightarrow> int" where
  "round_half_even r =
     (let f = \<lfloor>r\<rfloor>; d = r - of_int f
      in if d < 1 / 2 then f
         else if 1 / 2 < d then f + 1
         else if even f then f else f + 1)"

definition format_1f :: "rat \<Rightarrow> string" where
  "format_1f q =
     (let t = nat (round_half_even (\<bar>q\<bar> * 10))
      in (if q < 0 then ''-'' else '''') @ str_nat (t div 10) @ ''.'' @ [digit_char (t mod 10)])"

text \<open>What an f-string writes for \<^verbatim>\<open>{v}\<close>.\<close>

fun py_str :: "pyval \<Rightarrow> string" where
  "py_str PyNone = ''None''"
| "py_str (PyBool b) = (if b then ''True'' else ''False'')"
| "py_str (PyInt i) = str_int i"
| "py_str (PyFloat q) = str_float q"
| "py_str (PyStr s) = s"

text \<open>\<^verbatim>\<open>needle in hay\<close> for strings.\<close>

fun starts_with :: "string \<Rightarrow> string \<Rightarrow> bool" where
  "starts_with s [] = True"
| "starts_with [] (c # cs) = False"
| "starts_with (d # ds) (c # cs) = (d = c \<and> starts_with ds cs)"

fun str_contains :: "string \<Rightarrow> string \<Rightarrow> bool" where
  "str_contains [] needle = (needle = [])"
| "str_contains (c # cs) needle = (starts_with (c # cs) needle \<or> str_contains cs needle)"

text \<open>The accented letters of the messages, in UTF-8.\<close>

definition a_acute :: string where "a_acute = [CHR 0xC3, CHR 0xA1]"
definition i_acute :: string where "i_acute = [CHR 0xC3, CHR 0xAD]"
definition o_acute :: string where "o_acute = [CHR 0xC3, CHR 0xB3]"

section \<open>The scoring engine\<close>

datatype RiskLevel = LOW | MODERATE | HIGH | SEVERE

fun RiskLevel_value :: "RiskLevel \<Rightarrow> string" where
  "RiskLevel_value LOW = ''Bajo''"
| "RiskLevel_value MODERATE = ''Moderado''"
| "RiskLevel_value HIGH = ''Alto''"
| "RiskLevel_value SEVERE = ''Severo''"

record CalculatorResult =
  score :: pyval
  risk_level :: RiskLevel
  interpretation_text :: string
  recommendations :: string

text \<open>
  \<^verbatim>\<open>_validate_numeric_range(value, min_val, max_val, name)\<close>: returns nothing, or raises
  \<^verbatim>\<open>ValueError\<close> with the field's name and its bounds. The two comparisons themselves raise
  \<^verbatim>\<open>TypeError\<close> on a value that is not a number.
\<close>

definition validate_numeric_range :: "pyval \<Rightarrow> pyval \<Rightarrow> pyval \<Rightarrow> string \<Rightarrow> unit raises" where
  "validate_numeric_range val min_val max_val name =
     bnd (py_or (py_lt val min_val) (py_gt val max_val)) (\<lambda>out_of_range.
       if out_of_range
       then Inl (ValueError (name @ '' debe estar entre '' @ py_str min_val @ '' y '' @ py_str max_val))
       else Inr ())"

subsection \<open>CURB-65\<close>

definition curb65_interpret :: "int \<Rightarrow> CalculatorResult" where
  "curb65_interpret s =
     (if s = 0 then
        \<lparr>score = PyInt s, risk_level = LOW,
         interpretation_text = ''Riesgo bajo de mortalidad (0.7%)'',
         recommendations = ''Manejo ambulatorio. Considerar tratamiento oral.''\<rparr>
      else if s = 1 then
        \<lparr>score = PyInt s, risk_level = LOW,
         interpretation_text = ''Riesgo bajo de mortalidad (2.1%)'',
         recommendations = ''Manejo ambulatorio. Considerar tratamiento oral.''\<rparr>
      else if s = 2 then
        \<lparr>score = PyInt s, risk_level = MODERATE,
         interpretation_text = ''Riesgo moderado de mortalidad (9.2%)'',
         recommendations = ''Considerar hospitalizaci'' @ o_acute @ ''n. Tratamiento antibi''
                           @ o_acute @ ''tico endovenoso.''\<rparr>
      else if s = 3 then
        \<lparr>score = PyInt s, risk_level = HIGH,
         interpretation_text = ''Riesgo alto de mortalidad (14.5%)'',
         recommendations = ''Hospitalizaci'' @ o_acute @ ''n recomendada. Considerar UCI si hay deterioro.''\<rparr>
      else
        \<lparr>score = PyInt s, risk_level = SEVERE,
         interpretation_text = ''Riesgo muy alto de mortalidad (40%)'',
         recommendations = ''Hospitalizaci'' @ o_acute @ ''n urgente. Considerar manejo en UCI.''\<rparr>)"

definition calculate_curb65 ::
  "pyval \<Rightarrow> pyval \<Rightarrow> pyval \<Rightarrow> pyval \<Rightarrow> pyval \<Rightarrow> pyval \<Rightarrow> CalculatorResult raises" where
  "calculate_curb65 confusion urea respiratory_rate blood_pressure_systolic
       blood_pressure_diastolic age =
     bnd (validate_numeric_range urea (PyInt 0) (PyInt 500) ''Urea'') (\<lambda>_.
     bnd (validate_numeric_range respiratory_rate (PyInt 0) (PyInt 100)
            ''Frecuencia respiratoria'') (\<lambda>_.
     bnd (validate_numeric_range blood_pressure_systolic (PyInt 40) (PyInt 300)
            (''Presi'' @ o_acute @ ''n arterial sist'' @ o_acute @ ''lica'')) (\<lambda>_.
     bnd (validate_numeric_range blood_pressure_diastolic (PyInt 20) (PyInt 200)
            (''Presi'' @ o_acute @ ''n arterial diast'' @ o_acute @ ''lica'')) (\<lambda>_.
     bnd (validate_numeric_range age (PyInt 0) (PyInt 150) ''Edad'') (\<lambda>_.
     let s0 = (0::int);
         s1 = (if truthy confusion then s0 + 1 else s0)
     in
     bnd (py_gt urea (PyInt 19)) (\<lambda>u.
     let s2 = (if u then s1 + 1 else s1) in
     bnd (py_ge respiratory_rate (PyInt 30)) (\<lambda>r.
     let s3 = (if r then s2 + 1 else s2) in
     bnd (py_or (py_lt blood_pressure_systolic (PyInt 90))
                (py_le blood_pressure_diastolic (PyInt 60))) (\<lambda>b.
     let s4 = (if b then s3 + 1 else s3) in
     bnd (py_ge age (PyInt 65)) (\<lambda>a.
     let s5 = (if a then s4 + 1 else s4) in
     Inr (curb65_interpret s5))))))))))"

subsection \<open>Wells score for pulmonary embolism\<close>

definition wells_interpret :: "rat \<Rightarrow> CalculatorResult" where
  "wells_interpret s =
     (if s \<le> 4 then
        \<lparr>score = PyFloat s, risk_level = LOW,
         interpretation_text = ''Probabilidad baja de EP ('' @ py_str (PyFloat s)
                               @ '' puntos). Probabilidad < 12%'',
         recommendations = ''Considerar d'' @ i_acute @ ''mero D. Si negativo, EP poco probable.''\<rparr>
      else if s \<le> 6 then
        \<lparr>score = PyFloat s, risk_level = MODERATE,
         interpretation_text = ''Probabilidad moderada de EP ('' @ py_str (PyFloat s)
                               @ '' puntos). Probabilidad 12-37%'',
         recommendations = ''Realizar estudios de imagen (AngioTC o gammagraf'' @ i_acute @ ''a).''\<rparr>
      else
        \<lparr>score = PyFloat s, risk_level = HIGH,
         interpretation_text = ''Probabilidad alta de EP ('' @ py_str (PyFloat s)
                               @ '' puntos). Probabilidad > 37%'',
         recommendations = ''AngioTC urgente. Considerar anticoagulaci'' @ o_acute @ ''n emp''
                           @ i_acute @ ''rica si hay retraso.''\<rparr>)"

definition calculate_wells_pe ::
  "pyval \<Rightarrow> pyval \<Rightarrow> pyval \<Rightarrow> pyval \<Rightarrow> pyval \<Rightarrow> pyval \<Rightarrow> pyval \<Rightarrow> CalculatorResult raises" where
  "calculate_wells_pe clinical_signs_dvt pe_likely heart_rate_over_100 immobilization_surgery
       previous_pe_dvt hemoptysis malignancy =
     (let s0 = (0::rat);
          s1 = (if truthy clinical_signs_dvt then s0 + 3 else s0);
          s2 = (if truthy pe_likely then s1 + 3 else s1);
          s3 = (if truthy heart_rate_over_100 then s2 + 3 / 2 else s2);
          s4 = (if truthy immobilization_surgery then s3 + 3 / 2 else s3);
          s5 = (if truthy previous_pe_dvt then s4 + 3 / 2 else s4);
          s6 = (if truthy hemoptysis then s5 + 1 else s5);
          s7 = (if truthy malignancy then s6 + 1 else s6)
      in Inr (wells_interpret s7))"

subsection \<open>CHA2DS2-VASc\<close>

text \<open>
  The annual risk of the highest bucket is the float expression
  \<^verbatim>\<open>3.2 + (score-3)*0.8\<close> printed with \<^verbatim>\<open>:.1f\<close>. The model computes it exactly; the
  doubles Python computes for the scores 3 to 9 are within a few units in the last
  place of the exact tenths 3.2, 4.0, ..., 8.0, far from a rounding boundary, so the digit
  printed is the same.
\<close>

definition chads2_vasc_interpret :: "int \<Rightarrow> CalculatorResult" where
  "chads2_vasc_interpret s =
     (if s = 0 then
        \<lparr>score = PyInt s, risk_level = LOW,
         interpretation_text = ''Riesgo muy bajo de stroke (CHA2DS2-VASc '' @ py_str (PyInt s)
                               @ ''). Riesgo anual: 0%'',
         recommendations = ''No anticoagulaci'' @ o_acute @ ''n. Considerar aspirina.''\<rparr>
      else if s = 1 then
        \<lparr>score = PyInt s, risk_level = LOW,
         interpretation_text = ''Riesgo bajo de stroke (CHA2DS2-VASc '' @ py_str (PyInt s)
                               @ ''). Riesgo anual: 1.3%'',
         recommendations = ''Considerar anticoagulaci'' @ o_acute @ ''n oral o aspirina.''\<rparr>
      else if s = 2 then
        \<lparr>score = PyInt s, risk_level = MODERATE,
         interpretation_text = ''Riesgo moderado de stroke (CHA2DS2-VASc '' @ py_str (PyInt s)
                               @ ''). Riesgo anual: 2.2%'',
         recommendations = ''Anticoagulaci'' @ o_acute @ ''n oral recomendada.''\<rparr>
      else
        \<lparr>score = PyInt s, risk_level = HIGH,
         interpretation_text = ''Riesgo alto de stroke (CHA2DS2-VASc '' @ py_str (PyInt s)
                               @ ''). Riesgo anual: ''
                               @ format_1f (32 / 10 + of_int (s - 3) * (8 / 10)) @ ''%'',
         recommendations = ''Anticoagulaci'' @ o_acute @ ''n oral fuertemente recomendada.''\<rparr>)"

definition calculate_chads2_vasc ::
  "pyval \<Rightarrow> pyval \<Rightarrow> pyval \<Rightarrow> pyval \<Rightarrow> pyval \<Rightarrow> pyval \<Rightarrow> pyval \<Rightarrow> CalculatorResult raises" where
  "calculate_chads2_vasc congestive_heart_failure hypertension age diabetes stroke_tia_history
       vascular_disease sex_female =
     bnd (validate_numeric_range age (PyInt 0) (PyInt 150) ''Edad'') (\<lambda>_.
     let s0 = (0::int);
         s1 = (if truthy congestive_heart_failure then s0 + 1 else s0);
         s2 = (if truthy hypertension then s1 + 1 else s1)
     in
     bnd (py_ge age (PyInt 75)) (\<lambda>a75.
     bnd (if a75 then Inr (s2 + 2)
          else bnd (py_ge age (PyInt 65)) (\<lambda>a65. Inr (if a65 then s2 + 1 else s2))) (\<lambda>s3.
     let s4 = (if truthy diabetes then s3 + 1 else s3);
         s5 = (if truthy stroke_tia_history then s4 + 2 else s4);
         s6 = (if truthy vascular_disease then s5 + 1 else s5);
         s7 = (if truthy sex_female then s6 + 1 else s6)
     in Inr (chads2_vasc_interpret s7))))"

subsection \<open>APACHE II (simplified)\<close>

text \<open>
  The function is one sequence of blocks, each adding to \<^verbatim>\<open>score\<close>; every block is a
  definition here, named after the block, taking the score so far and returning the new one.
  The score is an int until the Glasgow block adds \<^verbatim>\<open>15 - glasgow_coma_scale\<close>, whose
  kind depends on the argument, so from there on the score is a Python number. For an int
  (or bool) Glasgow score, the annotated kind, the block is the code's; for a float one the
  model subtracts exactly where Python rounds the difference to a double.
\<close>

definition apache_temperature :: "pyval \<Rightarrow> int \<Rightarrow> int raises" where
  "apache_temperature temperature s =
     bnd (py_or (py_ge temperature (PyInt 41)) (py_le temperature (PyFloat (299 / 10)))) (\<lambda>c4.
     if c4 then Inr (s + 4) else
     bnd (py_or (py_ge temperature (PyInt 39)) (py_le temperature (PyFloat (319 / 10)))) (\<lambda>c3.
     if c3 then Inr (s + 3) else
     bnd (py_or (py_ge temperature (PyFloat (385 / 10))) (py_le temperature (PyFloat (339 / 10)))) (\<lambda>c1.
     if c1 then Inr (s + 1) else Inr s)))"

definition apache_mean_arterial_pressure :: "pyval \<Rightarrow> int \<Rightarrow> int raises" where
  "apache_mean_arterial_pressure mean_arterial_pressure s =
     bnd (py_or (py_ge mean_arterial_pressure (PyInt 160))
                (py_le mean_arterial_pressure (PyInt 49))) (\<lambda>c4.
     if c4 then Inr (s + 4) else
     bnd (py_or (py_ge mean_arterial_pressure (PyInt 130))
                (py_le mean_arterial_pressure (PyInt 69))) (\<lambda>c2.
     if c2 then Inr (s + 2) else
     bnd (py_le mean_arterial_pressure (PyInt 109)) (\<lambda>c2'.
     if c2' then Inr (s + 2) else Inr s)))"

definition apache_heart_rate :: "pyval \<Rightarrow> int \<Rightarrow> int raises" where
  "apache_heart_rate heart_rate s =
     bnd (py_or (py_ge heart_rate (PyInt 180)) (py_le heart_rate (PyInt 39))) (\<lambda>c4.
     if c4 then Inr (s + 4) else
     bnd (py_or (py_ge heart_rate (PyInt 140)) (py_le heart_rate (PyInt 54))) (\<lambda>c2.
     if c2 then Inr (s + 2) else
     bnd (py_or (py_ge heart_rate (PyInt 110)) (py_le heart_rate (PyInt 69))) (\<lambda>c1.
     if c1 then Inr (s + 1) else Inr s)))"

definition apache_glasgow :: "pyval \<Rightarrow> int \<Rightarrow> pyval raises" where
  "apache_glasgow glasgow_coma_scale s =
     bnd (py_sub (PyInt 15) glasgow_coma_scale) (\<lambda>gcs_points.
     py_add (PyInt s) gcs_points)"

definition apache_age :: "pyval \<Rightarrow> pyval \<Rightarrow> pyval raises" where
  "apache_age age sc =
     bnd (py_ge age (PyInt 75)) (\<lambda>a75.
     if a75 then py_add sc (PyInt 6) else
     bnd (py_ge age (PyInt 65)) (\<lambda>a65.
     if a65 then py_add sc (PyInt 5) else
     bnd (py_ge age (PyInt 55)) (\<lambda>a55.
     if a55 then py_add sc (PyInt 3) else
     bnd (py_ge age (PyInt 45)) (\<lambda>a45.
     if a45 then py_add sc (PyInt 2) else Inr sc))))"

definition apache_chronic_health :: "pyval \<Rightarrow> pyval \<Rightarrow> pyval raises" where
  "apache_chronic_health chronic_health sc =
     (if truthy chronic_health then py_add sc (PyInt 5) else Inr sc)"

definition apache_interpret :: "pyval \<Rightarrow> CalculatorResult raises" where
  "apache_interpret sc =
     bnd (py_le sc (PyInt 4)) (\<lambda>le4.
     if le4 then
       Inr \<lparr>score = sc, risk_level = LOW,
            interpretation_text = ''Riesgo bajo de mortalidad (APACHE II '' @ py_str sc
                                  @ ''). Mortalidad estimada: <4%'',
            recommendations = ''Paciente estable. Monitoreo rutinario.''\<rparr>
     else
     bnd (py_le sc (PyInt 14)) (\<lambda>le14.
     if le14 then
       Inr \<lparr>score = sc, risk_level = MODERATE,
            interpretation_text = ''Riesgo moderado de mortalidad (APACHE II '' @ py_str sc
                                  @ ''). Mortalidad estimada: 8-15%'',
            recommendations = ''Monitoreo cercano. Considerar cuidados intermedios.''\<rparr>
     else
     bnd (py_le sc (PyInt 24)) (\<lambda>le24.
     if le24 then
       Inr \<lparr>score = sc, risk_level = HIGH,
            interpretation_text = ''Riesgo alto de mortalidad (APACHE II '' @ py_str sc
                                  @ ''). Mortalidad estimada: 15-25%'',
            recommendations = ''UCI recomendada. Soporte intensivo.''\<rparr>
     else
       Inr \<lparr>score = sc, risk_level = SEVERE,
            interpretation_text = ''Riesgo muy alto de mortalidad (APACHE II '' @ py_str sc
                                  @ ''). Mortalidad estimada: >40%'',
            recommendations = ''UCI. Soporte vital m'' @ a_acute @ ''ximo. Considerar pron''
                              @ o_acute @ ''stico.''\<rparr>)))"

text \<open>
  Eight of the fourteen parameters (respiratory rate, oxygenation, arterial pH, sodium,
  potassium, creatinine, hematocrit, white blood cells) are never read.
\<close>

definition calculate_apache_ii ::
  "pyval \<Rightarrow> pyval \<Rightarrow> pyval \<Rightarrow> pyval \<Rightarrow> pyval \<Rightarrow> pyval \<Rightarrow> pyval \<Rightarrow> pyval \<Rightarrow> pyval \<Rightarrow> pyval
   \<Rightarrow> pyval \<Rightarrow> pyval \<Rightarrow> pyval \<Rightarrow> pyval \<Rightarrow> CalculatorResult raises" where
  "calculate_apache_ii temperature mean_arterial_pressure heart_rate respiratory_rate oxygenation
       arterial_ph sodium potassium creatinine hematocrit white_blood_cells glasgow_coma_scale
       age chronic_health =
     bnd (apache_temperature temperature 0) (\<lambda>s1.
     bnd (apache_mean_arterial_pressure mean_arterial_pressure s1) (\<lambda>s2.
     bnd (apache_heart_rate heart_rate s2) (\<lambda>s3.
     bnd (apache_glasgow glasgow_coma_scale s3) (\<lambda>s4.
     bnd (apache_age age s4) (\<lambda>s5.
     bnd (apache_chronic_health chronic_health s5) (\<lambda>s6.
     apache_interpret s6))))))"

section \<open>The algorithm graph\<close>

text \<open>
  The tables \<^verbatim>\<open>algorithms\<close>, \<^verbatim>\<open>algorithm_nodes\<close> and \<^verbatim>\<open>algorithm_edges\<close> of
  \<^verbatim>\<open>app/models.py\<close>, with the columns the graph operations read or write. A table is the
  list of its rows in the order in which the store returns them to a query that asks for no
  order. Columns with a default (\<^verbatim>\<open>order_index\<close>, \<^verbatim>\<open>is_active\<close>, the counters) hold a
  value, never NULL.
\<close>

record Algorithm =
  a_id :: int
  a_title :: string
  a_algorithm_type :: string
  a_start_node_id :: "int option"
  a_is_published :: bool
  a_is_featured :: bool
  a_view_count :: int
  a_usage_count :: int
  a_updated_at :: nat

record AlgorithmNode =
  n_id :: int
  n_algorithm_id :: int
  n_node_type :: string
  n_title :: string
  n_order_index :: int
  n_is_active :: bool

record AlgorithmEdge =
  e_id :: int
  e_algorithm_id :: int
  e_from_node_id :: int
  e_to_node_id :: int
  e_label :: "string option"
  e_order_index :: int
  e_is_active :: bool

text \<open>
  The session \<^verbatim>\<open>db\<close> of one request: the three tables as its queries see them, and the
  objects it will delete at its next flush because they were taken out of a relationship
  declared with \<^verbatim>\<open>cascade="all, delete-orphan"\<close> (\<^verbatim>\<open>Algorithm.nodes\<close> and
  \<^verbatim>\<open>Algorithm.edges\<close>, \<^verbatim>\<open>models.py\<close> lines 398 and 399). \<^verbatim>\<open>SessionLocal\<close> is made with
  \<^verbatim>\<open>autoflush=False\<close>, so the only flush is the one of \<^verbatim>\<open>db.commit()\<close> and a query never
  sees a pending delete. A request starts with a session that holds no pending delete.
\<close>

record Session =
  algorithms :: "Algorithm list"
  algorithm_nodes :: "AlgorithmNode list"
  algorithm_edges :: "AlgorithmEdge list"
  orphan_nodes :: "AlgorithmNode list"
  orphan_edges :: "AlgorithmEdge list"

datatype app_error = HTTPException nat string | IntegrityError

text \<open>
  \<^verbatim>\<open>db.commit()\<close>. The flush deletes the orphans by primary key. Deleting a node unlinks
  the edges of its relationships \<^verbatim>\<open>outgoing_edges\<close> and \<^verbatim>\<open>incoming_edges\<close>
  (\<^verbatim>\<open>models.py\<close> lines 463 and 464, no delete cascade) that are not deleted in the same
  flush: their \<^verbatim>\<open>from_node_id\<close> or \<^verbatim>\<open>to_node_id\<close> is set to NULL, which the columns
  (\<^verbatim>\<open>nullable=False\<close>, lines 499 and 500) refuse. Then the flush raises
  \<^verbatim>\<open>IntegrityError\<close> and the transaction writes nothing.
\<close>

definition unlinked_edges :: "Session \<Rightarrow> AlgorithmEdge list" where
  "unlinked_edges db =
     filter (\<lambda>e. \<not> List.member (map e_id (orphan_edges db)) (e_id e)
                 \<and> (List.member (map n_id (orphan_nodes db)) (e_from_node_id e)
                      \<or> List.member (map n_id (orphan_nodes db)) (e_to_node_id e)))
       (algorithm_edges db)"

definition commit :: "Session \<Rightarrow> app_error + Session" where
  "commit db =
     (if unlinked_edges db \<noteq> [] then Inl IntegrityError
      else Inr (db\<lparr>algorithm_nodes :=
                     filter (\<lambda>n. \<not> List.member (map n_id (orphan_nodes db)) (n_id n))
                       (algorithm_nodes db),
                   algorithm_edges :=
                     filter (\<lambda>e. \<not> List.member (map e_id (orphan_edges db)) (e_id e))
                       (algorithm_edges db),
                   orphan_nodes := [],
                   orphan_edges := []\<rparr>))"

text \<open>
  \<^verbatim>\<open>.first()\<close> is the first row of the result or \<^verbatim>\<open>None\<close>; \<^verbatim>\<open>.filter(...)\<close> keeps the
  rows that satisfy the condition; \<^verbatim>\<open>.order_by(column)\<close> sorts ascending, rows with equal
  keys staying in the store's order.
\<close>

definition query_first :: "'a list \<Rightarrow> 'a option" where
  "query_first rows = (case rows of [] \<Rightarrow> None | r # _ \<Rightarrow> Some r)"

definition get_algorithm_by_id :: "Session \<Rightarrow> int \<Rightarrow> Algorithm option" where
  "get_algorithm_by_id db algorithm_id =
     query_first (filter (\<lambda>a. a_id a = algorithm_id) (algorithms db))"

text \<open>
  The two counters. \<^verbatim>\<open>datetime.utcnow()\<close> is the parameter \<open>now\<close>. The commit writes
  the changed columns of the row with the algorithm's primary key, together with whatever
  else the session holds; the refresh reads the row back. When the commit raises, the
  function raises and nothing has been written.
\<close>

definition increment_algorithm_view_count ::
  "Session \<Rightarrow> nat \<Rightarrow> int \<Rightarrow> app_error + Session \<times> Algorithm option" where
  "increment_algorithm_view_count db now algorithm_id =
     (case get_algorithm_by_id db algorithm_id of
        None \<Rightarrow> Inr (db, None)
      | Some db_algorithm \<Rightarrow>
          (case commit (db\<lparr>algorithms :=
                 map (\<lambda>row. if a_id row = a_id db_algorithm
                            then row\<lparr>a_view_count := a_view_count db_algorithm + 1,
                                     a_updated_at := now\<rparr>
                            else row) (algorithms db)\<rparr>) of
             Inl err \<Rightarrow> Inl err
           | Inr db' \<Rightarrow> Inr (db', get_algorithm_by_id db' algorithm_id)))"

definition increment_algorithm_usage_count ::
  "Session \<Rightarrow> nat \<Rightarrow> int \<Rightarrow> app_error + Session \<times> Algorithm option" where
  "increment_algorithm_usage_count db now algorithm_id =
     (case get_algorithm_by_id db algorithm_id of
        None \<Rightarrow> Inr (db, None)
      | Some db_algorithm \<Rightarrow>
          (case commit (db\<lparr>algorithms :=
                 map (\<lambda>row. if a_id row = a_id db_algorithm
                            then row\<lparr>a_usage_count := a_usage_count db_algorithm + 1,
                                     a_updated_at := now\<rparr>
                            else row) (algorithms db)\<rparr>) of
             Inl err \<Rightarrow> Inl err
           | Inr db' \<Rightarrow> Inr (db', get_algorithm_by_id db' algorithm_id)))"

definition get_algorithm_node_by_id :: "Session \<Rightarrow> int \<Rightarrow> AlgorithmNode option" where
  "get_algorithm_node_by_id db node_id =
     query_first (filter (\<lambda>n. n_id n = node_id) (algorithm_nodes db))"

definition get_algorithm_nodes_by_algorithm :: "Session \<Rightarrow> int \<Rightarrow> AlgorithmNode list" where
  "get_algorithm_nodes_by_algorithm db algorithm_id =
     sort_key n_order_index
       (filter (\<lambda>n. n_algorithm_id n = algorithm_id \<and> n_is_active n) (algorithm_nodes db))"

text \<open>
  \<^verbatim>\<open>not algorithm or not algorithm.start_node_id\<close>: the fallback query runs when there is
  no such algorithm, when its \<^verbatim>\<open>start_node_id\<close> is NULL, and when it is 0, which Python
  takes for false. The fallback query has no \<^verbatim>\<open>order_by\<close>.
\<close>

definition get_algorithm_start_node :: "Session \<Rightarrow> int \<Rightarrow> AlgorithmNode option" where
  "get_algorithm_start_node db algorithm_id =
     (let fallback = query_first
            (filter (\<lambda>n. n_algorithm_id n = algorithm_id \<and> n_node_type n = ''start''
                          \<and> n_is_active n) (algorithm_nodes db))
      in case get_algorithm_by_id db algorithm_id of
           None \<Rightarrow> fallback
         | Some algorithm \<Rightarrow>
             (case a_start_node_id algorithm of
                None \<Rightarrow> fallback
              | Some start_node_id \<Rightarrow>
                  if start_node_id = 0 then fallback
                  else get_algorithm_node_by_id db start_node_id))"

definition get_algorithm_edges_by_algorithm :: "Session \<Rightarrow> int \<Rightarrow> AlgorithmEdge list" where
  "get_algorithm_edges_by_algorithm db algorithm_id =
     sort_key e_order_index
       (filter (\<lambda>e. e_algorithm_id e = algorithm_id \<and> e_is_active e) (algorithm_edges db))"

definition get_outgoing_edges_from_node :: "Session \<Rightarrow> int \<Rightarrow> AlgorithmEdge list" where
  "get_outgoing_edges_from_node db node_id =
     sort_key e_order_index
       (filter (\<lambda>e. e_from_node_id e = node_id \<and> e_is_active e) (algorithm_edges db))"

definition get_incoming_edges_to_node :: "Session \<Rightarrow> int \<Rightarrow> AlgorithmEdge list" where
  "get_incoming_edges_to_node db node_id =
     sort_key e_order_index
       (filter (\<lambda>e. e_to_node_id e = node_id \<and> e_is_active e) (algorithm_edges db))"

text \<open>
  What a lazy load of \<^verbatim>\<open>algorithm.nodes\<close> and of \<^verbatim>\<open>algorithm.edges\<close> reads: every
  row of the algorithm, active or not, in the store's order (the relationships declare no
  \<^verbatim>\<open>order_by\<close>).
\<close>

definition relationship_nodes :: "Session \<Rightarrow> Algorithm \<Rightarrow> AlgorithmNode list" where
  "relationship_nodes db algorithm =
     filter (\<lambda>n. n_algorithm_id n = a_id algorithm) (algorithm_nodes db)"

definition relationship_edges :: "Session \<Rightarrow> Algorithm \<Rightarrow> AlgorithmEdge list" where
  "relationship_edges db algorithm =
     filter (\<lambda>e. e_algorithm_id e = a_id algorithm) (algorithm_edges db)"

text \<open>
  \<^verbatim>\<open>crud.get_algorithm_with_nodes_and_edges\<close> assigns the active nodes and the active edges
  to \<^verbatim>\<open>algorithm.nodes\<close> and \<^verbatim>\<open>algorithm.edges\<close>. The assignment replaces the
  collection the relationship holds, so every row of the algorithm that is not in the new
  list (its inactive nodes and edges) leaves the relationship and becomes an orphan of the
  session. The function returns the algorithm with the two lists.
\<close>

definition get_algorithm_with_nodes_and_edges ::
  "Session \<Rightarrow> int
   \<Rightarrow> Session \<times> (Algorithm \<times> AlgorithmNode list \<times> AlgorithmEdge list) option" where
  "get_algorithm_with_nodes_and_edges db algorithm_id =
     (case get_algorithm_by_id db algorithm_id of
        None \<Rightarrow> (db, None)
      | Some algorithm \<Rightarrow>
          (let nodes = get_algorithm_nodes_by_algorithm db algorithm_id;
               edges = get_algorithm_edges_by_algorithm db algorithm_id;
               db' = db\<lparr>orphan_nodes := orphan_nodes db
                          @ filter (\<lambda>n. \<not> List.member (map n_id nodes) (n_id n))
                              (relationship_nodes db algorithm),
                        orphan_edges := orphan_edges db
                          @ filter (\<lambda>e. \<not> List.member (map e_id edges) (e_id e))
                              (relationship_edges db algorithm)\<rparr>
           in (db', Some (algorithm, nodes, edges))))"

subsection \<open>The endpoint of \<^verbatim>\<open>app/main.py\<close> that reads a whole algorithm\<close>

record FullAlgorithm =
  full_algorithm :: Algorithm
  full_nodes :: "AlgorithmNode list"
  full_edges :: "AlgorithmEdge list"
  full_start_node :: "AlgorithmNode option"

text \<open>
  \<^verbatim>\<open>GET /algorithms/{algorithm_id}/full\<close>, from the session of the request to the store
  the request leaves behind and its answer. The commit is the one inside
  \<^verbatim>\<open>crud.increment_algorithm_usage_count\<close>; the endpoint catches nothing, so when the
  commit raises the error leaves the endpoint (the application answers 500) and the store
  is the one the request found. After a commit every attribute of the algorithm has
  expired, so the answer is built from the refreshed row and from the relationships as they
  load again.
\<close>

definition endpoint_get_algorithm_with_nodes_and_edges ::
  "Session \<Rightarrow> nat \<Rightarrow> int \<Rightarrow> Session \<times> (app_error + FullAlgorithm)" where
  "endpoint_get_algorithm_with_nodes_and_edges db now algorithm_id =
     (case get_algorithm_with_nodes_and_edges db algorithm_id of
        (db1, None) \<Rightarrow> (db, Inl (HTTPException 404 ''Algoritmo no encontrado''))
      | (db1, Some (algorithm, nodes, edges)) \<Rightarrow>
          (case increment_algorithm_usage_count db1 now algorithm_id of
             Inl err \<Rightarrow> (db, Inl err)
           | Inr (db2, refreshed) \<Rightarrow>
               (let algorithm' = (case refreshed of None \<Rightarrow> algorithm | Some a \<Rightarrow> a)
                in (db2, Inr \<lparr>full_algorithm = algorithm',
                               full_nodes = relationship_nodes db2 algorithm',
                               full_edges = relationship_edges db2 algorithm',
                               full_start_node = get_algorithm_start_node db2 algorithm_id\<rparr>))))"

section \<open>The rules as the specification words them\<close>

text \<open>CURB-65: one point for each of the five indicators, and the risk level of a score.\<close>

definition indicator :: "bool \<Rightarrow> int" where
  "indicator b = (if b then 1 else 0)"

definition curb65_count :: "bool \<Rightarrow> rat \<Rightarrow> int \<Rightarrow> int \<Rightarrow> int \<Rightarrow> int \<Rightarrow> int" where
  "curb65_count c u rr sys dia age =
     indicator c + indicator (19 < u) + indicator (30 \<le> rr)
     + indicator (sys < 90 \<or> dia \<le> 60) + indicator (65 \<le> age)"

definition curb65_risk :: "int \<Rightarrow> RiskLevel" where
  "curb65_risk s =
     (if s = 0 \<or> s = 1 then LOW else if s = 2 then MODERATE else if s = 3 then HIGH else SEVERE)"

text \<open>CHA2DS2-VASc: the points of the six flags and of the age, and the risk level.\<close>

definition chads2_vasc_age_points :: "int \<Rightarrow> int" where
  "chads2_vasc_age_points age = (if 75 \<le> age then 2 else if 65 \<le> age then 1 else 0)"

definition chads2_vasc_points :: "bool \<Rightarrow> bool \<Rightarrow> int \<Rightarrow> bool \<Rightarrow> bool \<Rightarrow> bool \<Rightarrow> bool \<Rightarrow> int" where
  "chads2_vasc_points chf htn age dm stroke vasc female =
     indicator chf + indicator htn + indicator dm + indicator vasc + indicator female
     + 2 * indicator stroke + chads2_vasc_age_points age"

definition chads2_vasc_risk :: "int \<Rightarrow> RiskLevel" where
  "chads2_vasc_risk s = (if s = 0 \<or> s = 1 then LOW else if s = 2 then MODERATE else HIGH)"

definition chads2_vasc_annual_risk :: "int \<Rightarrow> rat" where
  "chads2_vasc_annual_risk s = 32 / 10 + (of_int s - 3) * (8 / 10)"

text \<open>
  APACHE II: the temperature ladder as the specification enumerates it; the ladders of the
  mean arterial pressure, the heart rate and the age as functions of the number; the bucket
  of a total with its mortality estimate and its recommendation.
\<close>

definition temperature_points :: "rat \<Rightarrow> int" where
  "temperature_points t =
     (if 41 \<le> t \<or> t \<le> 299 / 10 then 4
      else if 39 \<le> t \<or> t \<le> 319 / 10 then 3
      else if 385 / 10 \<le> t \<or> t \<le> 339 / 10 then 1
      else 0)"

definition map_points :: "rat \<Rightarrow> int" where
  "map_points m =
     (if 160 \<le> m \<or> m \<le> 49 then 4
      else if 130 \<le> m \<or> m \<le> 69 then 2
      else if m \<le> 109 then 2
      else 0)"

definition heart_rate_points :: "int \<Rightarrow> int" where
  "heart_rate_points h =
     (if 180 \<le> h \<or> h \<le> 39 then 4
      else if 140 \<le> h \<or> h \<le> 54 then 2
      else if 110 \<le> h \<or> h \<le> 69 then 1
      else 0)"

definition age_points :: "int \<Rightarrow> int" where
  "age_points a =
     (if 75 \<le> a then 6 else if 65 \<le> a then 5 else if 55 \<le> a then 3
      else if 45 \<le> a then 2 else 0)"

definition apache_total :: "rat \<Rightarrow> rat \<Rightarrow> int \<Rightarrow> int \<Rightarrow> int \<Rightarrow> bool \<Rightarrow> int" where
  "apache_total t m h gcs a chronic =
     temperature_points t + map_points m + heart_rate_points h + (15 - gcs) + age_points a
     + (if chronic then 5 else 0)"

definition apache_bucket :: "int \<Rightarrow> RiskLevel" where
  "apache_bucket tot =
     (if tot \<le> 4 then LOW else if 5 \<le> tot \<and> tot \<le> 14 then MODERATE
      else if 15 \<le> tot \<and> tot \<le> 24 then HIGH else SEVERE)"

fun apache_mortality :: "RiskLevel \<Rightarrow> string" where
  "apache_mortality LOW = ''<4%''"
| "apache_mortality MODERATE = ''8-15%''"
| "apache_mortality HIGH = ''15-25%''"
| "apache_mortality SEVERE = ''>40%''"

fun apache_risk_words :: "RiskLevel \<Rightarrow> string" where
  "apache_risk_words LOW = ''Riesgo bajo''"
| "apache_risk_words MODERATE = ''Riesgo moderado''"
| "apache_risk_words HIGH = ''Riesgo alto''"
| "apache_risk_words SEVERE = ''Riesgo muy alto''"

fun apache_recommendation :: "RiskLevel \<Rightarrow> string" where
  "apache_recommendation LOW = ''Paciente estable. Monitoreo rutinario.''"
| "apache_recommendation MODERATE = ''Monitoreo cercano. Considerar cuidados intermedios.''"
| "apache_recommendation HIGH = ''UCI recomendada. Soporte intensivo.''"
| "apache_recommendation SEVERE =
     ''UCI. Soporte vital m'' @ a_acute @ ''ximo. Considerar pron'' @ o_acute @ ''stico.''"

text \<open>
  Start-node resolution as the specification words it: the node named by
  \<^verbatim>\<open>start_node_id\<close> when it is set, otherwise the first active node of type
  \<^verbatim>\<open>start\<close> of the algorithm in ascending \<^verbatim>\<open>order_index\<close>.
\<close>

definition is_start_candidate :: "int \<Rightarrow> AlgorithmNode \<Rightarrow> bool" where
  "is_start_candidate algorithm_id n =
     (n_algorithm_id n = algorithm_id \<and> n_node_type n = ''start'' \<and> n_is_active n)"

definition spec_start_node :: "Session \<Rightarrow> Algorithm \<Rightarrow> AlgorithmNode option" where
  "spec_start_node db algorithm =
     (case a_start_node_id algorithm of
        Some start_node_id \<Rightarrow> get_algorithm_node_by_id db start_node_id
      | None \<Rightarrow>
          query_first (sort_key n_order_index
            (filter (is_start_candidate (a_id algorithm)) (algorithm_nodes db))))"

section \<open>Three small stores\<close>

text \<open>
  A store shaped like the one the seeder builds: one decision tree with a start node, a
  decision node and two action nodes; three active edges, stored out of order, and one
  inactive edge. The second store holds an algorithm without \<^verbatim>\<open>start_node_id\<close> and two
  active start nodes, the one stored first having the larger \<^verbatim>\<open>order_index\<close>. The
  third store holds an algorithm whose third node has been switched off while an active edge
  still leads to it.
\<close>

definition example_algorithm :: Algorithm where
  "example_algorithm =
     \<lparr>a_id = 1, a_title = ''Manejo de Dolor Toracico'', a_algorithm_type = ''decision_tree'',
      a_start_node_id = Some 1, a_is_published = True, a_is_featured = True,
      a_view_count = 3, a_usage_count = 7, a_updated_at = 0\<rparr>"

definition example_node :: "int \<Rightarrow> string \<Rightarrow> int \<Rightarrow> AlgorithmNode" where
  "example_node i ty ord =
     \<lparr>n_id = i, n_algorithm_id = 1, n_node_type = ty, n_title = ''nodo'',
      n_order_index = ord, n_is_active = True\<rparr>"

definition example_edge :: "int \<Rightarrow> int \<Rightarrow> int \<Rightarrow> int \<Rightarrow> bool \<Rightarrow> AlgorithmEdge" where
  "example_edge i src dst ord act =
     \<lparr>e_id = i, e_algorithm_id = 1, e_from_node_id = src, e_to_node_id = dst,
      e_label = None, e_order_index = ord, e_is_active = act\<rparr>"

definition example_db :: Session where
  "example_db =
     \<lparr>algorithms = [example_algorithm],
      algorithm_nodes = [example_node 1 ''start'' 1, example_node 2 ''decision'' 2,
                         example_node 3 ''action'' 3, example_node 4 ''action'' 4],
      algorithm_edges = [example_edge 1 2 4 3 True, example_edge 2 2 3 2 True,
                         example_edge 3 2 1 0 False, example_edge 4 1 2 1 True],
      orphan_nodes = [], orphan_edges = []\<rparr>"

definition two_start_nodes_db :: Session where
  "two_start_nodes_db =
     \<lparr>algorithms = [example_algorithm\<lparr>a_start_node_id := None\<rparr>],
      algorithm_nodes = [example_node 1 ''start'' 5, example_node 2 ''start'' 1],
      algorithm_edges = [],
      orphan_nodes = [], orphan_edges = []\<rparr>"

definition inactive_node_in_use_db :: Session where
  "inactive_node_in_use_db =
     \<lparr>algorithms = [example_algorithm],
      algorithm_nodes = [example_node 1 ''start'' 1, example_node 2 ''decision'' 2,
                         (example_node 3 ''action'' 3)\<lparr>n_is_active := False\<rparr>],
      algorithm_edges = [example_edge 1 1 2 1 True, example_edge 2 2 3 2 True],
      orphan_nodes = [], orphan_edges = []\<rparr>"

section \<open>Facts about the Python layer\<close>

lemma bnd_Inl [simp]: "bnd (Inl e) f = Inl e"
  by (simp add: bnd_def)

lemma bnd_Inr [simp]: "bnd (Inr x) f = f x"
  by (simp add: bnd_def)

lemma py_lt_num [simp]:
  "py_lt (PyInt i) (PyInt j) = Inr (i < j)"
  "py_lt (PyFloat q) (PyInt j) = Inr (q < of_int j)"
  "py_lt (PyInt i) (PyFloat r) = Inr (of_int i < r)"
  "py_lt (PyFloat q) (PyFloat r) = Inr (q < r)"
  by simp_all

lemma py_le_num [simp]:
  "py_le (PyInt i) (PyInt j) = Inr (i \<le> j)"
  "py_le (PyFloat q) (PyInt j) = Inr (q \<le> of_int j)"
  "py_le (PyInt i) (PyFloat r) = Inr (of_int i \<le> r)"
  "py_le (PyFloat q) (PyFloat r) = Inr (q \<le> r)"
  by simp_all

lemma py_add_int [simp]: "py_add (PyInt i) (PyInt j) = Inr (PyInt (i + j))"
  by (simp add: py_add_def py_arith_def)

lemma py_sub_int [simp]: "py_sub (PyInt i) (PyInt j) = Inr (PyInt (i - j))"
  by (simp add: py_sub_def py_arith_def)

lemma starts_with_append: "starts_with (n @ b) n"
  by (induction n) auto

lemma str_contains_append: "str_contains (a @ n @ b) n"
proof (induction a)
  case Nil
  show ?case by (cases "n @ b") (use starts_with_append[of n b] in auto)
next
  case (Cons c a)
  then show ?case by simp
qed

lemma validate_numeric_range_int:
  "validate_numeric_range (PyInt v) (PyInt lo) (PyInt hi) name =
     (if v < lo \<or> hi < v
      then Inl (ValueError (name @ '' debe estar entre '' @ str_int lo @ '' y '' @ str_int hi))
      else Inr ())"
  by (simp add: validate_numeric_range_def py_or_def py_gt_def)

lemma validate_numeric_range_float:
  "validate_numeric_range (PyFloat v) (PyInt lo) (PyInt hi) name =
     (if v < of_int lo \<or> of_int hi < v
      then Inl (ValueError (name @ '' debe estar entre '' @ str_int lo @ '' y '' @ str_int hi))
      else Inr ())"
  by (simp add: validate_numeric_range_def py_or_def py_gt_def)

section \<open>CURB-65\<close>

lemma calculate_curb65_valid:
  assumes "0 \<le> u" "u \<le> 500" "0 \<le> rr" "rr \<le> 100" "40 \<le> sys" "sys \<le> 300"
    and "20 \<le> dia" "dia \<le> 200" "0 \<le> age" "age \<le> 150"
  shows "calculate_curb65 (PyBool c) (PyFloat u) (PyInt rr) (PyInt sys) (PyInt dia) (PyInt age)
         = Inr (curb65_interpret (curb65_count c u rr sys dia age))"
  using assms
  by (simp add: calculate_curb65_def validate_numeric_range_int validate_numeric_range_float
      py_or_def py_gt_def py_ge_def curb65_count_def indicator_def Let_def)

lemma curb65_count_bounds:
  "0 \<le> curb65_count c u rr sys dia age \<and> curb65_count c u rr sys dia age \<le> 5"
  by (simp add: curb65_count_def indicator_def)

lemma curb65_interpret_fields:
  "score (curb65_interpret s) = PyInt s"
  "0 \<le> s \<Longrightarrow> risk_level (curb65_interpret s) = curb65_risk s"
  by (auto simp: curb65_interpret_def curb65_risk_def)

text \<open>
  Claim C1. For every valid CURB-65 input (a boolean; urea in [0,500]; respiratory rate in
  [0,100]; systolic pressure in [40,300]; diastolic pressure in [20,200]; age in [0,150])
  \<open>calculate_curb65\<close> returns a result whose score is the number of indicators that hold
  (confusion; urea above 19; respiratory rate at least 30; systolic below 90 or diastolic at
  most 60; age at least 65), a number from 0 to 5, and whose risk level is Low for 0 and 1,
  Moderate for 2, High for 3 and Severe from 4 on. In particular confusion, urea 8.0,
  respiratory rate 32, pressures 85 and 55 and age 72 give score 4 and Severe.
\<close>

theorem curb65_score_counts_indicators:
  "(0 \<le> u \<and> u \<le> 500 \<and> 0 \<le> rr \<and> rr \<le> 100 \<and> 40 \<le> sys \<and> sys \<le> 300
      \<and> 20 \<le> dia \<and> dia \<le> 200 \<and> 0 \<le> age \<and> age \<le> 150 \<longrightarrow>
     (\<exists>r. calculate_curb65 (PyBool c) (PyFloat u) (PyInt rr) (PyInt sys) (PyInt dia) (PyInt age)
             = Inr r
        \<and> score r = PyInt (curb65_count c u rr sys dia age)
        \<and> 0 \<le> curb65_count c u rr sys dia age \<and> curb65_count c u rr sys dia age \<le> 5
        \<and> risk_level r = curb65_risk (curb65_count c u rr sys dia age)))
   \<and> (\<exists>r. calculate_curb65 (PyBool True) (PyFloat 8) (PyInt 32) (PyInt 85) (PyInt 55) (PyInt 72)
             = Inr r
        \<and> score r = PyInt 4 \<and> risk_level r = SEVERE)"
proof (intro conjI impI)
  assume v: "0 \<le> u \<and> u \<le> 500 \<and> 0 \<le> rr \<and> rr \<le> 100 \<and> 40 \<le> sys \<and> sys \<le> 300
      \<and> 20 \<le> dia \<and> dia \<le> 200 \<and> 0 \<le> age \<and> age \<le> 150"
  then have "calculate_curb65 (PyBool c) (PyFloat u) (PyInt rr) (PyInt sys) (PyInt dia) (PyInt age)
         = Inr (curb65_interpret (curb65_count c u rr sys dia age))"
    by (intro calculate_curb65_valid) simp_all
  with curb65_count_bounds[of c u rr sys dia age]
  show "\<exists>r. calculate_curb65 (PyBool c) (PyFloat u) (PyInt rr) (PyInt sys) (PyInt dia) (PyInt age)
             = Inr r
        \<and> score r = PyInt (curb65_count c u rr sys dia age)
        \<and> 0 \<le> curb65_count c u rr sys dia age \<and> curb65_count c u rr sys dia age \<le> 5
        \<and> risk_level r = curb65_risk (curb65_count c u rr sys dia age)"
    by (simp add: curb65_interpret_fields)
next
  have n: "curb65_count True 8 32 85 55 72 = 4"
    by (simp add: curb65_count_def indicator_def)
  have "calculate_curb65 (PyBool True) (PyFloat 8) (PyInt 32) (PyInt 85) (PyInt 55) (PyInt 72)
         = Inr (curb65_interpret 4)"
    using calculate_curb65_valid[of 8 32 85 55 72 True] n by simp
  then show "\<exists>r. calculate_curb65 (PyBool True) (PyFloat 8) (PyInt 32) (PyInt 85) (PyInt 55)
                  (PyInt 72) = Inr r
        \<and> score r = PyInt 4 \<and> risk_level r = SEVERE"
    by (simp add: curb65_interpret_fields curb65_risk_def)
qed

text \<open>
  The theorem of C1 at the patient of the first unit test: no confusion, urea 5.0,
  respiratory rate 18, pressures 130 and 80, age 45; the score is 0 and the risk Low.
\<close>

theorem curb65_score_counts_indicators_witness:
  "((0::rat) \<le> 5 \<and> (5::rat) \<le> 500 \<and> (0::int) \<le> 18 \<and> (18::int) \<le> 100 \<and> (40::int) \<le> 130
      \<and> (130::int) \<le> 300 \<and> (20::int) \<le> 80 \<and> (80::int) \<le> 200 \<and> (0::int) \<le> 45
      \<and> (45::int) \<le> 150)
   \<and> (\<exists>r. calculate_curb65 (PyBool False) (PyFloat 5) (PyInt 18) (PyInt 130) (PyInt 80) (PyInt 45)
             = Inr r
        \<and> score r = PyInt 0 \<and> risk_level r = LOW)"
proof -
  have n: "curb65_count False 5 18 130 80 45 = 0"
    by (simp add: curb65_count_def indicator_def)
  show ?thesis
    using curb65_score_counts_indicators[of 5 18 130 80 45 False] n
    by (simp add: curb65_risk_def)
qed

section \<open>CHA2DS2-VASc\<close>

lemma chads2_vasc_interpret_fields:
  "score (chads2_vasc_interpret s) = PyInt s"
  "0 \<le> s \<Longrightarrow> risk_level (chads2_vasc_interpret s) = chads2_vasc_risk s"
  "3 \<le> s \<Longrightarrow> interpretation_text (chads2_vasc_interpret s) =
      (''Riesgo alto de stroke (CHA2DS2-VASc '' @ str_int s @ ''). Riesgo anual: '')
      @ (format_1f (chads2_vasc_annual_risk s) @ ''%'') @ []"
  by (auto simp: chads2_vasc_interpret_def chads2_vasc_risk_def chads2_vasc_annual_risk_def)

lemma calculate_chads2_vasc_valid:
  assumes "0 \<le> age" "age \<le> 150"
  shows "calculate_chads2_vasc (PyBool chf) (PyBool htn) (PyInt age) (PyBool dm) (PyBool stroke)
           (PyBool vasc) (PyBool female)
         = Inr (chads2_vasc_interpret (chads2_vasc_points chf htn age dm stroke vasc female))"
  using assms
  by (simp add: calculate_chads2_vasc_def validate_numeric_range_int py_ge_def
      chads2_vasc_points_def chads2_vasc_age_points_def indicator_def Let_def)

lemma chads2_vasc_points_nonneg: "0 \<le> chads2_vasc_points chf htn age dm stroke vasc female"
  by (simp add: chads2_vasc_points_def chads2_vasc_age_points_def indicator_def)

text \<open>
  Claim C4. For every valid CHA2DS2-VASc input (six booleans and an age in [0,150])
  \<open>calculate_chads2_vasc\<close> returns a result whose score is one point each for heart
  failure, hypertension, diabetes, vascular disease and female sex, two points for a history
  of stroke or TIA, and for the age 2 points from 75 on, 1 point from 65 to 74 and none
  below 65. The risk level is Low for 0 and 1, Moderate for 2 and High from 3 on, and in the
  High case the interpretation contains the annual risk \<open>3.2 + (score - 3) * 0.8\<close> written
  with one decimal and a percent sign. In particular six true flags and age 80 give score 9,
  High, and an interpretation that contains \<open>8.0%\<close>.
\<close>

theorem chads2_vasc_score_and_risk:
  "(0 \<le> age \<and> age \<le> 150 \<longrightarrow>
     (\<exists>r. calculate_chads2_vasc (PyBool chf) (PyBool htn) (PyInt age) (PyBool dm) (PyBool stroke)
             (PyBool vasc) (PyBool female) = Inr r
        \<and> score r = PyInt (chads2_vasc_points chf htn age dm stroke vasc female)
        \<and> risk_level r = chads2_vasc_risk (chads2_vasc_points chf htn age dm stroke vasc female)
        \<and> (3 \<le> chads2_vasc_points chf htn age dm stroke vasc female \<longrightarrow>
             str_contains (interpretation_text r)
               (format_1f (chads2_vasc_annual_risk
                  (chads2_vasc_points chf htn age dm stroke vasc female)) @ ''%''))))
   \<and> (\<exists>r. calculate_chads2_vasc (PyBool True) (PyBool True) (PyInt 80) (PyBool True) (PyBool True)
             (PyBool True) (PyBool True) = Inr r
        \<and> score r = PyInt 9 \<and> risk_level r = HIGH
        \<and> str_contains (interpretation_text r) ''8.0%'')"
proof (intro conjI impI)
  assume a: "0 \<le> age \<and> age \<le> 150"
  let ?s = "chads2_vasc_points chf htn age dm stroke vasc female"
  have nn: "0 \<le> ?s" by (rule chads2_vasc_points_nonneg)
  have c: "3 \<le> ?s \<longrightarrow> str_contains (interpretation_text (chads2_vasc_interpret ?s))
               (format_1f (chads2_vasc_annual_risk ?s) @ ''%'')"
  proof
    assume "3 \<le> ?s"
    from chads2_vasc_interpret_fields(3)[OF this]
    show "str_contains (interpretation_text (chads2_vasc_interpret ?s))
               (format_1f (chads2_vasc_annual_risk ?s) @ ''%'')"
      by (simp only: str_contains_append)
  qed
  show "\<exists>r. calculate_chads2_vasc (PyBool chf) (PyBool htn) (PyInt age) (PyBool dm) (PyBool stroke)
             (PyBool vasc) (PyBool female) = Inr r
        \<and> score r = PyInt ?s \<and> risk_level r = chads2_vasc_risk ?s
        \<and> (3 \<le> ?s \<longrightarrow> str_contains (interpretation_text r)
               (format_1f (chads2_vasc_annual_risk ?s) @ ''%''))"
    using a nn c by (simp add: calculate_chads2_vasc_valid chads2_vasc_interpret_fields)
next
  have p: "chads2_vasc_points True True 80 True True True True = 9"
    by (simp add: chads2_vasc_points_def chads2_vasc_age_points_def indicator_def)
  have f: "format_1f (chads2_vasc_annual_risk 9) = ''8.0''"
    by code_simp
  have i: "interpretation_text (chads2_vasc_interpret 9) =
      (''Riesgo alto de stroke (CHA2DS2-VASc '' @ str_int 9 @ ''). Riesgo anual: '')
      @ ''8.0%'' @ []"
    using chads2_vasc_interpret_fields(3)[of 9] f by simp
  have "str_contains (interpretation_text (chads2_vasc_interpret 9)) ''8.0%''"
    by (simp only: i str_contains_append)
  then show "\<exists>r. calculate_chads2_vasc (PyBool True) (PyBool True) (PyInt 80) (PyBool True)
                  (PyBool True) (PyBool True) (PyBool True) = Inr r
        \<and> score r = PyInt 9 \<and> risk_level r = HIGH
        \<and> str_contains (interpretation_text r) ''8.0%''"
    using calculate_chads2_vasc_valid[of 80 True True True True True True] p
    by (simp add: chads2_vasc_interpret_fields chads2_vasc_risk_def)
qed

text \<open>
  The theorem of C4 at heart failure, hypertension and age 70: three points, High, and an
  interpretation that contains \<open>3.2%\<close>.
\<close>

theorem chads2_vasc_score_and_risk_witness:
  "((0::int) \<le> 70 \<and> (70::int) \<le> 150)
   \<and> (3::int) \<le> chads2_vasc_points True True 70 False False False False
   \<and> (\<exists>r. calculate_chads2_vasc (PyBool True) (PyBool True) (PyInt 70) (PyBool False)
             (PyBool False) (PyBool False) (PyBool False) = Inr r
        \<and> score r = PyInt 3 \<and> risk_level r = HIGH
        \<and> str_contains (interpretation_text r) ''3.2%'')"
proof -
  have p: "chads2_vasc_points True True 70 False False False False = 3"
    by (simp add: chads2_vasc_points_def chads2_vasc_age_points_def indicator_def)
  have f: "format_1f (chads2_vasc_annual_risk 3) = ''3.2''"
    by code_simp
  show ?thesis
    using chads2_vasc_score_and_risk[of 70 True True False False False False] p f
    by (simp add: chads2_vasc_risk_def)
qed

section \<open>APACHE II\<close>

lemma apache_temperature_float: "apache_temperature (PyFloat t) s = Inr (s + temperature_points t)"
  by (simp add: apache_temperature_def temperature_points_def py_or_def py_ge_def)

lemma apache_map_float: "apache_mean_arterial_pressure (PyFloat m) s = Inr (s + map_points m)"
  by (simp add: apache_mean_arterial_pressure_def map_points_def py_or_def py_ge_def)

lemma apache_heart_rate_int: "apache_heart_rate (PyInt h) s = Inr (s + heart_rate_points h)"
  by (simp add: apache_heart_rate_def heart_rate_points_def py_or_def py_ge_def)

lemma apache_glasgow_int: "apache_glasgow (PyInt g) s = Inr (PyInt (s + (15 - g)))"
  by (simp add: apache_glasgow_def)

lemma apache_age_int: "apache_age (PyInt a) (PyInt s) = Inr (PyInt (s + age_points a))"
  by (simp add: apache_age_def age_points_def py_ge_def)

lemma apache_chronic_bool:
  "apache_chronic_health (PyBool c) (PyInt s) = Inr (PyInt (s + (if c then 5 else 0)))"
  by (simp add: apache_chronic_health_def)

lemma apache_interpret_int:
  "apache_interpret (PyInt s) =
     Inr \<lparr>score = PyInt s, risk_level = apache_bucket s,
          interpretation_text =
            apache_risk_words (apache_bucket s) @ '' de mortalidad (APACHE II '' @ str_int s
            @ ''). Mortalidad estimada: '' @ apache_mortality (apache_bucket s),
          recommendations = apache_recommendation (apache_bucket s)\<rparr>"
  by (simp add: apache_interpret_def apache_bucket_def)

lemma calculate_apache_ii_typed:
  "calculate_apache_ii (PyFloat t) (PyFloat m) (PyInt h) rr ox ph na k cr hct wbc (PyInt g)
       (PyInt a) (PyBool c)
   = apache_interpret (PyInt (apache_total t m h g a c))"
  by (simp add: calculate_apache_ii_def apache_temperature_float apache_map_float
      apache_heart_rate_int apache_glasgow_int apache_age_int apache_chronic_bool
      apache_total_def)

text \<open>
  Claim C3. \<open>calculate_apache_ii\<close> adds for the temperature 4 points at 41 and above or
  at 29.9 and below, otherwise 3 points at 39 and above or at 31.9 and below, otherwise 1
  point at 38.5 and above or at 33.9 and below, otherwise none (\<open>temperature_points\<close>); it
  adds exactly 15 minus the Glasgow score; and it puts the total in the bucket Low up to 4,
  Moderate from 5 to 14, High from 15 to 24 and Severe above 24, each bucket with its own
  mortality estimate and its own recommendation. The total is the sum of the six components
  (\<open>apache_total\<close>); the eight parameters the function never reads may hold anything.
\<close>

theorem apache_ii_ladder_and_buckets:
  "\<exists>r. calculate_apache_ii (PyFloat t) (PyFloat m) (PyInt h) rr ox ph na k cr hct wbc (PyInt g)
          (PyInt a) (PyBool c) = Inr r
     \<and> score r = PyInt (temperature_points t + map_points m + heart_rate_points h + (15 - g)
                        + age_points a + (if c then 5 else 0))
     \<and> risk_level r = apache_bucket (apache_total t m h g a c)
     \<and> interpretation_text r =
         apache_risk_words (risk_level r) @ '' de mortalidad (APACHE II ''
         @ str_int (apache_total t m h g a c) @ ''). Mortalidad estimada: ''
         @ apache_mortality (risk_level r)
     \<and> recommendations r = apache_recommendation (risk_level r)"
  by (simp add: calculate_apache_ii_typed apache_interpret_int) (simp add: apache_total_def)

text \<open>
  Claim C9. In \<open>calculate_apache_ii\<close> the block of the mean arterial pressure adds 2
  points for every pressure above 69 and up to 109, the normal pressure 85 among them, so the
  total is the sum of the other components and 2; the block adds nothing exactly for the
  pressures strictly between 109 and 130.
\<close>

theorem apache_ii_map_component:
  "(69 < m \<and> m \<le> 109 \<longrightarrow>
      apache_mean_arterial_pressure (PyFloat m) s = Inr (s + 2)
      \<and> (\<exists>r. calculate_apache_ii (PyFloat t) (PyFloat m) (PyInt h) rr ox ph na k cr hct wbc
               (PyInt g) (PyInt a) (PyBool c) = Inr r
            \<and> score r = PyInt (temperature_points t + 2 + heart_rate_points h + (15 - g)
                               + age_points a + (if c then 5 else 0))))
   \<and> (apache_mean_arterial_pressure (PyFloat m) s = Inr s) = (109 < m \<and> m < 130)
   \<and> apache_mean_arterial_pressure (PyFloat 85) s = Inr (s + 2)"
  by (auto simp: calculate_apache_ii_typed apache_interpret_int apache_map_float map_points_def
      apache_total_def)

text \<open>The theorem of C9 at the pressures 85 (two points) and 120 (none).\<close>

theorem apache_ii_map_component_witness:
  "((69::rat) < 85 \<and> (85::rat) \<le> 109)
   \<and> apache_mean_arterial_pressure (PyFloat 85) 0 = Inr 2
   \<and> ((109::rat) < 120 \<and> (120::rat) < 130)
   \<and> apache_mean_arterial_pressure (PyFloat 120) 0 = Inr 0"
  using apache_ii_map_component[of 85 0] apache_ii_map_component[of 120 0]
  by simp

section \<open>Inputs that are out of range or of the wrong kind\<close>

text \<open>
  Claim C2. Every calculator is to check each numeric input against its inclusive range and
  to fail with a validation error that names the field and the bounds, \<open>calculate_apache_ii\<close>
  included. \<open>calculate_curb65\<close> does so: age -5 and respiratory rate 150 raise
  \<^verbatim>\<open>ValueError\<close> with the field and its bounds. \<open>calculate_apache_ii\<close> checks nothing:
  with the same age -5, which \<open>calculate_curb65\<close> and \<open>calculate_chads2_vasc\<close> reject, it
  returns a result, score 2 and risk Low.
\<close>

theorem apache_ii_accepts_out_of_range_age:
  "calculate_apache_ii (PyFloat 37) (PyFloat 85) (PyInt 80) (PyInt 16) (PyFloat 95)
      (PyFloat (74 / 10)) (PyFloat 140) (PyFloat 4) (PyFloat 1) (PyFloat 40) (PyFloat 8)
      (PyInt 15) (PyInt (- 5)) (PyBool False)
   = Inr \<lparr>score = PyInt 2, risk_level = LOW,
          interpretation_text =
            ''Riesgo bajo de mortalidad (APACHE II 2). Mortalidad estimada: <4%'',
          recommendations = ''Paciente estable. Monitoreo rutinario.''\<rparr>
   \<and> calculate_curb65 (PyBool False) (PyFloat 5) (PyInt 20) (PyInt 120) (PyInt 80) (PyInt (- 5))
     = Inl (ValueError ''Edad debe estar entre 0 y 150'')
   \<and> calculate_curb65 (PyBool False) (PyFloat 5) (PyInt 150) (PyInt 120) (PyInt 80) (PyInt 50)
     = Inl (ValueError ''Frecuencia respiratoria debe estar entre 0 y 100'')"
  by code_simp

text \<open>
  Claim C7. A value of the wrong kind for a field is to make every calculator fail with a
  type error. A string where a number is expected does: the first comparison raises
  \<^verbatim>\<open>TypeError\<close>. A value that is not a boolean where a flag is expected does not: the
  flag is only tested for truth, so \<open>calculate_wells_pe\<close> with the string \<^verbatim>\<open>"yes"\<close> as
  its first flag counts it as true and returns 3.0 points, and \<open>calculate_curb65\<close> with
  \<^verbatim>\<open>None\<close> for the confusion flag counts it as false and returns score 0. The unit test
  \<^verbatim>\<open>test_calculator_error_handling\<close> expects \<^verbatim>\<open>TypeError\<close> from both calls.
\<close>

theorem wells_pe_accepts_non_boolean_flag:
  "calculate_wells_pe (PyStr ''yes'') (PyBool False) (PyBool False) (PyBool False) (PyBool False)
      (PyBool False) (PyBool False)
   = Inr \<lparr>score = PyFloat 3, risk_level = LOW,
          interpretation_text = ''Probabilidad baja de EP (3.0 puntos). Probabilidad < 12%'',
          recommendations = ''Considerar d'' @ i_acute @ ''mero D. Si negativo, EP poco probable.''\<rparr>
   \<and> calculate_curb65 PyNone (PyFloat 5) (PyInt 20) (PyInt 120) (PyInt 80) (PyInt 50)
     = Inr \<lparr>score = PyInt 0, risk_level = LOW,
            interpretation_text = ''Riesgo bajo de mortalidad (0.7%)'',
            recommendations = ''Manejo ambulatorio. Considerar tratamiento oral.''\<rparr>
   \<and> calculate_curb65 (PyBool False) (PyStr ''5.0'') (PyInt 20) (PyInt 120) (PyInt 80) (PyInt 50)
     = Inl TypeError"
  by code_simp

section \<open>Queries and counters of the algorithm store\<close>

lemma query_first_filter_None:
  "(query_first (filter P xs) = None) = (\<forall>x\<in>set xs. \<not> P x)"
  by (induction xs) (auto simp: query_first_def)

lemma get_algorithm_by_id_None:
  "(get_algorithm_by_id db j = None) = (\<forall>a\<in>set (algorithms db). a_id a \<noteq> j)"
  by (simp add: get_algorithm_by_id_def query_first_filter_None)

lemma increment_usage_missing:
  "get_algorithm_by_id db i = None \<Longrightarrow>
     increment_algorithm_usage_count db now i = Inr (db, None)"
  by (simp add: increment_algorithm_usage_count_def)

lemma increment_view_missing:
  "get_algorithm_by_id db i = None \<Longrightarrow>
     increment_algorithm_view_count db now i = Inr (db, None)"
  by (simp add: increment_algorithm_view_count_def)

section \<open>Traversal queries\<close>

text \<open>
  Claim C5. Start-node resolution is to return, for an algorithm without
  \<^verbatim>\<open>start_node_id\<close>, the first active node of type \<^verbatim>\<open>start\<close> of that algorithm in
  ascending \<^verbatim>\<open>order_index\<close>. The fallback query of \<open>get_algorithm_start_node\<close> asks for
  "el primer nodo de tipo 'start'" but has no \<^verbatim>\<open>order_by\<close> before \<^verbatim>\<open>.first()\<close>,
  unlike every query of nodes or edges beside it, which orders by \<^verbatim>\<open>order_index\<close>. On
  the store with two start nodes it returns the node stored first, whose
  \<^verbatim>\<open>order_index\<close> is 5, and not the node with \<^verbatim>\<open>order_index\<close> 1 that comes first in
  ascending order.
\<close>

theorem start_node_ignores_order_index:
  "get_algorithm_by_id two_start_nodes_db 1 = Some (example_algorithm\<lparr>a_start_node_id := None\<rparr>)
   \<and> get_algorithm_start_node two_start_nodes_db 1 = Some (example_node 1 ''start'' 5)
   \<and> spec_start_node two_start_nodes_db (example_algorithm\<lparr>a_start_node_id := None\<rparr>)
       = Some (example_node 2 ''start'' 1)
   \<and> get_algorithm_start_node two_start_nodes_db 1
       \<noteq> spec_start_node two_start_nodes_db (example_algorithm\<lparr>a_start_node_id := None\<rparr>)"
  by code_simp

text \<open>
  Claim C8. For every node id \<open>get_outgoing_edges_from_node\<close> returns exactly the active
  edges whose \<^verbatim>\<open>from_node_id\<close> is that id, each as often as it is stored, in ascending
  \<^verbatim>\<open>order_index\<close>; for a node without such edges it returns the empty list.
\<close>

theorem outgoing_edges_exact_and_sorted:
  "mset (get_outgoing_edges_from_node db node_id)
     = filter_mset (\<lambda>e. e_from_node_id e = node_id \<and> e_is_active e) (mset (algorithm_edges db))
   \<and> sorted (map e_order_index (get_outgoing_edges_from_node db node_id))
   \<and> ((\<forall>e\<in>set (algorithm_edges db). \<not> (e_from_node_id e = node_id \<and> e_is_active e))
        \<longrightarrow> get_outgoing_edges_from_node db node_id = [])"
  by (simp add: get_outgoing_edges_from_node_def filter_empty_conv)

text \<open>
  The theorem of C8 on the example store: node 4 is a leaf; node 2 has the edges 2 and 1,
  in that order.
\<close>

theorem outgoing_edges_witness:
  "filter (\<lambda>e. e_from_node_id e = 4 \<and> e_is_active e) (algorithm_edges example_db) = []
   \<and> get_outgoing_edges_from_node example_db 4 = []
   \<and> map e_id (get_outgoing_edges_from_node example_db 2) = [2, 1]
   \<and> sorted (map e_order_index (get_outgoing_edges_from_node example_db 2))"
proof -
  have h: "\<forall>e\<in>set (algorithm_edges example_db). \<not> (e_from_node_id e = 4 \<and> e_is_active e)"
    by (simp add: example_db_def example_edge_def)
  then have f: "filter (\<lambda>e. e_from_node_id e = 4 \<and> e_is_active e) (algorithm_edges example_db)
                = []"
    by (simp add: filter_empty_conv)
  have l: "map e_id (get_outgoing_edges_from_node example_db 2) = [2, 1]"
    by (simp add: get_outgoing_edges_from_node_def example_db_def example_edge_def)
  from outgoing_edges_exact_and_sorted[of example_db 4]
       outgoing_edges_exact_and_sorted[of example_db 2] h f l
  show ?thesis by blast
qed

section \<open>Counters\<close>

text \<open>
  Claim C10. \<open>increment_algorithm_view_count\<close> and \<open>increment_algorithm_usage_count\<close>
  called with an id that no algorithm has return \<^verbatim>\<open>None\<close>, raise nothing and leave the
  store as it was.
\<close>

theorem increment_unknown_algorithm_is_noop:
  assumes "\<forall>a\<in>set (algorithms db). a_id a \<noteq> algorithm_id"
  shows "increment_algorithm_view_count db now algorithm_id = Inr (db, None)
       \<and> increment_algorithm_usage_count db now algorithm_id = Inr (db, None)"
  using assms
  by (simp add: get_algorithm_by_id_None[symmetric] increment_view_missing increment_usage_missing)

text \<open>The theorem of C10 on the example store, which has no algorithm 99.\<close>

theorem increment_unknown_algorithm_witness:
  "map a_id (algorithms example_db) = [1]
   \<and> increment_algorithm_view_count example_db 5 99 = Inr (example_db, None)
   \<and> increment_algorithm_usage_count example_db 5 99 = Inr (example_db, None)"
proof -
  have m: "map a_id (algorithms example_db) = [1]"
    by (simp add: example_db_def example_algorithm_def)
  have h: "\<forall>a\<in>set (algorithms example_db). a_id a \<noteq> 99"
    by (simp add: example_db_def example_algorithm_def)
  from increment_unknown_algorithm_is_noop[OF h, of 5] m show ?thesis by blast
qed

text \<open>
  Claim C6. Each full fetch (\<^verbatim>\<open>GET /algorithms/{id}/full\<close>) of a stored algorithm is to
  add exactly 1 to its \<^verbatim>\<open>usage_count\<close>. The endpoint sets out to do so: after the read
  it calls \<open>increment_algorithm_usage_count\<close>. But the read has assigned the active nodes
  and edges to relationships that delete their orphans, so the commit of the increment also
  deletes the inactive rows of the algorithm, and it fails when an edge that stays still
  points to a node that goes. On the store whose node 3 is inactive and still the target of
  the active edge 2 the request raises \<^verbatim>\<open>IntegrityError\<close> and the counter stays at 7.
  On the example store the request succeeds and the counter goes from 7 to 8, and the
  inactive edge 3 is gone from the table.
\<close>

theorem full_fetch_raises_on_inactive_node_in_use:
  "endpoint_get_algorithm_with_nodes_and_edges inactive_node_in_use_db 10 1
     = (inactive_node_in_use_db, Inl IntegrityError)
   \<and> map a_usage_count
        (algorithms (fst (endpoint_get_algorithm_with_nodes_and_edges inactive_node_in_use_db 10 1)))
       = [7]
   \<and> map a_usage_count
        (algorithms (fst (endpoint_get_algorithm_with_nodes_and_edges example_db 10 1)))
       = [8]
   \<and> map e_id (algorithm_edges example_db) = [1, 2, 3, 4]
   \<and> map e_id
        (algorithm_edges (fst (endpoint_get_algorithm_with_nodes_and_edges example_db 10 1)))
       = [1, 2, 4]"
  by code_simp

end
